theory Spec2Isabelle
  imports
    Complex_Main
    "HOL-Library.Word"
    "HOL-Library.List_Lexorder"
    "HOL-Library.Char_ord"
    "HOL-Library.Product_Lexorder"
begin

section \<open>The record set\<close>

text \<open>
  One row of the data frame that \<open>load_data\<close> returns, with the column names of the
  source. \<open>Unite_temps\<close> is the year, \<open>Zone_geographique\<close> the zone label,
  \<open>Valeurs\<close> the numeric value, \<open>Indicateur\<close> the indicator label and \<open>Code_dep\<close>
  the department code. Labels are Python strings, compared code point by code point
  (the lexicographic order on \<open>char list\<close>); the file is read as Latin-1, so each
  code point is one \<open>char\<close>.

  The value column is modelled as an integer column: when every cell of the column
  is an integer, the data frame library holds it as 64-bit signed integers, whose
  sums and differences wrap around. \<open>int64\<close> is that type, \<open>sint\<close> reads the
  integer a value denotes. A column with a decimal or a missing cell is held as
  64-bit floats; its rounded arithmetic is outside the model.
\<close>

type_synonym int64 = "64 word"

text \<open>The integers that an \<open>int64\<close> can hold.\<close>

definition in_int64 :: "int \<Rightarrow> bool" where
  "in_int64 k = (- (2 ^ 63) \<le> k \<and> k < 2 ^ 63)"

record row =
  Unite_temps :: int
  Zone_geographique :: string
  Valeurs :: int64
  Indicateur :: string
  Code_dep :: string

text \<open>
  A derived table is a list of rows in table order. A row of the national table is
  \<open>((Unite_temps, Indicateur), Valeurs)\<close>, a row of the departmental table is
  \<open>(Zone_geographique, Valeurs)\<close>. After \<open>reset_index()\<close> the index of a derived
  table is the range index: the label of a row is its position.
\<close>

type_synonym national_row = "(int \<times> string) \<times> int64"
type_synonym dept_row = "string \<times> int64"

section \<open>The data frame operations the scripts call\<close>

text \<open>
  \<open>frame.groupby(keys)['Valeurs'].sum().reset_index()\<close>: one output row per distinct
  key of the input, the keys in ascending order (\<open>sort=True\<close> is the default of
  \<open>groupby\<close>), each with the sum of the values of the input rows that carry the key.
  The sum is taken in the type of the column: on \<open>int64\<close> it wraps around. An empty
  input gives an empty table.
\<close>

definition groupby_sum ::
  "('r \<Rightarrow> 'k::linorder) \<Rightarrow> ('r \<Rightarrow> 'v::comm_monoid_add) \<Rightarrow> 'r list \<Rightarrow> ('k \<times> 'v) list" where
  "groupby_sum key val rs =
     map (\<lambda>k. (k, sum_list (map val (filter (\<lambda>r. key r = k) rs))))
         (sort (remdups (map key rs)))"

text \<open>
  \<open>frame.sort_values(column, ascending=...)\<close> on one column. The data frame library
  computes the permutation from an ascending argsort of the column; for a descending
  sort it reverses the column first and reverses the permutation afterwards. The
  argsort is modelled by the insertion sort \<open>sort_key\<close>, which leaves rows with equal
  keys in their order. The default sort kind of the library promises no order among
  rows with equal keys, and a run of the library may return them in another order
  than this definition: the order among equal keys is a choice of the model, and the
  properties proved below of a sorted table (its order by key, its rows, its sums)
  do not depend on it.
\<close>

definition sort_values :: "('r \<Rightarrow> 'k::linorder) \<Rightarrow> bool \<Rightarrow> 'r list \<Rightarrow> 'r list" where
  "sort_values by ascending rs =
     (if ascending then sort_key by rs else rev (sort_key by (rev rs)))"

section \<open>National aggregation\<close>

definition get_national_statistics ::
  "row list \<Rightarrow> string list \<Rightarrow> int list \<Rightarrow> national_row list" where
  "get_national_statistics df selected_indicators selected_years =
     (let filtered_df =
            filter (\<lambda>r. Indicateur r \<in> set selected_indicators \<and>
                        Unite_temps r \<in> set selected_years) df
      in groupby_sum (\<lambda>r. (Unite_temps r, Indicateur r)) Valeurs filtered_df)"

section \<open>Departmental ranking\<close>

text \<open>
  \<open>None\<close> is the \<open>None\<close> the source returns when no row matches. The sort is on the
  summed values as signed integers.
\<close>

definition create_departmental_analysis ::
  "row list \<Rightarrow> string \<Rightarrow> int \<Rightarrow> dept_row list option" where
  "create_departmental_analysis df selected_indicator selected_year =
     (let dept_data =
            filter (\<lambda>r. Indicateur r = selected_indicator \<and>
                        Unite_temps r = selected_year) df
      in if dept_data = [] then None
         else Some (sort_values (\<lambda>g. sint (snd g)) False
                      (groupby_sum Zone_geographique Valeurs dept_data)))"

section \<open>Statistics per indicator\<close>

text \<open>The exceptions a lookup of the statistics code can raise.\<close>

datatype py_error = KeyError | IndexError | ValueError

definition bind_err :: "'e + 'a \<Rightarrow> ('a \<Rightarrow> 'e + 'b) \<Rightarrow> 'e + 'b" where
  "bind_err m f = case_sum Inl f m"

text \<open>
  A frame with its index: each row carries its label. The national table carries the
  range index, so the label of a row is its position.
\<close>

type_synonym 'r indexed = "(nat \<times> 'r) list"

abbreviation year_of :: "nat \<times> national_row \<Rightarrow> int" where
  "year_of x \<equiv> fst (fst (snd x))"

abbreviation indicator_of :: "nat \<times> national_row \<Rightarrow> string" where
  "indicator_of x \<equiv> snd (fst (snd x))"

abbreviation raw_value_of :: "nat \<times> national_row \<Rightarrow> int64" where
  "raw_value_of x \<equiv> snd (snd x)"

abbreviation value_of :: "nat \<times> national_row \<Rightarrow> int" where
  "value_of x \<equiv> sint (snd (snd x))"

text \<open>\<open>frame.iloc[i]\<close>: by position, negative positions count from the end.\<close>

definition iloc :: "'a list \<Rightarrow> int \<Rightarrow> py_error + 'a" where
  "iloc xs i =
     (let pos = (if 0 \<le> i then i else i + int (length xs))
      in if pos < 0 \<or> int (length xs) \<le> pos then Inl IndexError
         else Inr (xs ! nat pos))"

text \<open>\<open>frame.loc[label]\<close>: by label; the labels of a range index are unique.\<close>

definition loc :: "'r indexed \<Rightarrow> nat \<Rightarrow> py_error + (nat \<times> 'r)" where
  "loc d label =
     (case find (\<lambda>x. fst x = label) d of None \<Rightarrow> Inl KeyError | Some x \<Rightarrow> Inr x)"

text \<open>
  \<open>series.idxmax()\<close> and \<open>series.idxmin()\<close>: one scan that keeps the best row so far
  and replaces it only by a strictly better one, so the label of the first occurrence
  is returned. An empty series raises.
\<close>

fun idx_scan :: "(int \<Rightarrow> int \<Rightarrow> bool) \<Rightarrow> nat \<times> national_row \<Rightarrow> national_row indexed \<Rightarrow> nat" where
  "idx_scan better best [] = fst best"
| "idx_scan better best (x # xs) =
     idx_scan better (if better (value_of x) (value_of best) then x else best) xs"

definition idxmax :: "national_row indexed \<Rightarrow> py_error + nat" where
  "idxmax d = (case d of [] \<Rightarrow> Inl ValueError | x # xs \<Rightarrow> Inr (idx_scan (\<lambda>a b. b < a) x xs))"

definition idxmin :: "national_row indexed \<Rightarrow> py_error + nat" where
  "idxmin d = (case d of [] \<Rightarrow> Inl ValueError | x # xs \<Rightarrow> Inr (idx_scan (\<lambda>a b. a < b) x xs))"

text \<open>
  The dictionary of one indicator. The integer entries are \<open>int64\<close> values, recorded
  as the integers they denote; \<open>evolution_pct\<close> and \<open>mean_annual\<close> are 64-bit floats,
  recorded as the reals they denote.
\<close>

record stats =
  first_value :: int
  last_value :: int
  first_year :: int
  last_year :: int
  evolution_abs :: int
  evolution_pct :: real
  total_cases :: int
  mean_annual :: real
  max_value :: int
  min_value :: int
  max_year :: int
  min_year :: int

text \<open>
  \<open>national_data[national_data['Indicateur'] == indicator].sort_values('Unite_temps')\<close>,
  each row with the label it has in \<open>national_data\<close>.
\<close>

definition indicator_data :: "national_row list \<Rightarrow> string \<Rightarrow> national_row indexed" where
  "indicator_data national_data indicator =
     sort_values year_of True
       (filter (\<lambda>x. indicator_of x = indicator) (enumerate 0 national_data))"

text \<open>
  The percentage change as both scripts write it:
  \<open>((last_value - first_value) / first_value) * 100 if first_value != 0 else 0\<close>.
  The difference is a difference of \<open>int64\<close> and wraps around. The quotient of two
  \<open>int64\<close> is the quotient of the two operands as 64-bit floats, and the product by
  100 is a product of 64-bit floats: each conversion and each operation returns the
  exact result rounded to a 64-bit float. \<open>rnd\<close>, a parameter, is that rounding; the
  results stay far from the largest float. When the first value is zero the result
  is the integer 0.
\<close>

definition evolution_percent :: "(real \<Rightarrow> real) \<Rightarrow> int64 \<Rightarrow> int64 \<Rightarrow> real" where
  "evolution_percent rnd first_v last_v =
     (if first_v \<noteq> 0
      then rnd (rnd (rnd (real_of_int (sint (last_v - first_v)))
                       / rnd (real_of_int (sint first_v))) * 100)
      else 0)"

text \<open>
  The body of the loop of \<open>calculate_statistics\<close> in \<open>app.py\<close>, for an indicator whose
  series \<open>d\<close> has passed \<open>len(indicator_data) > 1\<close>. The years of the maximum and of the
  minimum are read at the label that \<open>idxmax\<close> and \<open>idxmin\<close> return. The sum of
  the series is a sum of \<open>int64\<close>; the mean is the one of the library, which works on
  64-bit floats (\<open>series_mean\<close>, a parameter).
\<close>

definition indicator_statistics ::
  "(real \<Rightarrow> real) \<Rightarrow> (int64 list \<Rightarrow> real) \<Rightarrow> national_row indexed \<Rightarrow> py_error + stats" where
  "indicator_statistics rnd series_mean d =
     bind_err (iloc d 0) (\<lambda>first_row.
     bind_err (iloc d (- 1)) (\<lambda>last_row.
     bind_err (idxmax d) (\<lambda>max_label.
     bind_err (loc d max_label) (\<lambda>max_row.
     bind_err (idxmin d) (\<lambda>min_label.
     bind_err (loc d min_label) (\<lambda>min_row.
       Inr \<lparr> first_value = value_of first_row,
             last_value = value_of last_row,
             first_year = year_of first_row,
             last_year = year_of last_row,
             evolution_abs = sint (raw_value_of last_row - raw_value_of first_row),
             evolution_pct = evolution_percent rnd (raw_value_of first_row) (raw_value_of last_row),
             total_cases = sint (sum_list (map raw_value_of d)),
             mean_annual = series_mean (map raw_value_of d),
             max_value = Max (set (map value_of d)),
             min_value = Min (set (map value_of d)),
             max_year = year_of max_row,
             min_year = year_of min_row \<rparr>))))))"

text \<open>
  The same body in \<open>notebooks/app_analyse_crimesdelits.py\<close>: the years of the maximum
  and of the minimum are the first year of the rows selected by the boolean mask
  \<open>indicator_data['Valeurs'] == max_value\<close> (respectively \<open>min_value\<close>).
\<close>

definition indicator_statistics_notebook ::
  "(real \<Rightarrow> real) \<Rightarrow> (int64 list \<Rightarrow> real) \<Rightarrow> national_row indexed \<Rightarrow> py_error + stats" where
  "indicator_statistics_notebook rnd series_mean d =
     bind_err (iloc d 0) (\<lambda>first_row.
     bind_err (iloc d (- 1)) (\<lambda>last_row.
       (let max_v = Max (set (map value_of d));
            min_v = Min (set (map value_of d))
        in bind_err (iloc (filter (\<lambda>x. value_of x = max_v) d) 0) (\<lambda>max_row.
           bind_err (iloc (filter (\<lambda>x. value_of x = min_v) d) 0) (\<lambda>min_row.
             Inr \<lparr> first_value = value_of first_row,
                   last_value = value_of last_row,
                   first_year = year_of first_row,
                   last_year = year_of last_row,
                   evolution_abs = sint (raw_value_of last_row - raw_value_of first_row),
                   evolution_pct = evolution_percent rnd (raw_value_of first_row) (raw_value_of last_row),
                   total_cases = sint (sum_list (map raw_value_of d)),
                   mean_annual = series_mean (map raw_value_of d),
                   max_value = max_v,
                   min_value = min_v,
                   max_year = year_of max_row,
                   min_year = year_of min_row \<rparr>)))))"

text \<open>
  The loop over the selected indicators, with the dictionary \<open>stats\<close> as accumulator.
  An indicator whose series has at most one row is skipped; an exception raised in
  the body leaves the function.
\<close>

fun stats_loop ::
  "(national_row indexed \<Rightarrow> py_error + stats) \<Rightarrow> national_row list \<Rightarrow> string list \<Rightarrow>
   (string \<rightharpoonup> stats) \<Rightarrow> py_error + (string \<rightharpoonup> stats)" where
  "stats_loop body national_data [] acc = Inr acc"
| "stats_loop body national_data (indicator # rest) acc =
     (let d = indicator_data national_data indicator
      in if length d > 1
         then bind_err (body d) (\<lambda>s. stats_loop body national_data rest (acc(indicator \<mapsto> s)))
         else stats_loop body national_data rest acc)"

definition calculate_statistics ::
  "(real \<Rightarrow> real) \<Rightarrow> (int64 list \<Rightarrow> real) \<Rightarrow> national_row list \<Rightarrow> string list \<Rightarrow>
   py_error + (string \<rightharpoonup> stats)" where
  "calculate_statistics rnd series_mean national_data selected_indicators =
     stats_loop (indicator_statistics rnd series_mean) national_data selected_indicators
       Map.empty"

definition calculate_statistics_notebook ::
  "(real \<Rightarrow> real) \<Rightarrow> (int64 list \<Rightarrow> real) \<Rightarrow> national_row list \<Rightarrow> string list \<Rightarrow>
   py_error + (string \<rightharpoonup> stats)" where
  "calculate_statistics_notebook rnd series_mean national_data selected_indicators =
     stats_loop (indicator_statistics_notebook rnd series_mean) national_data
       selected_indicators Map.empty"

section \<open>The loader\<close>

text \<open>
  What \<open>pd.read_csv\<close> hands to \<open>load_data\<close>. A cell of a column that may be numeric
  is missing (\<open>NA\<close>), text or a number (a real for the year column, which may be
  read as floats, an \<open>int64\<close> for the value column); the label columns \<open>Zone_geographique\<close>,
  \<open>Indicateur\<close> and \<open>Code_dep\<close> are read as text (in the published file they hold
  names, and codes such as 2A; a code column of numbers only would be read as
  numbers, and the string accessor would raise), \<open>None\<close> being a missing cell. \<open>columns\<close> is the
  header; the cells of a column that the header lacks are never read.
\<close>

datatype 'a cell = NA | Txt string | Num 'a

record raw_row =
  raw_Unite_temps :: "real cell"
  raw_Zone_geographique :: "string option"
  raw_Valeurs :: "int64 cell"
  raw_Indicateur :: "string option"
  raw_Code_dep :: "string option"

record csv_frame =
  columns :: "string list"
  rows :: "raw_row list"

text \<open>
  The outcome of one \<open>pd.read_csv(path, ...)\<close>: the file is missing, the call raises
  another exception (the path is a directory, permission is denied, the file is
  empty or cannot be parsed), or a frame is parsed.
\<close>

datatype read_csv_result = FileNotFoundError | OtherException | Parsed csv_frame

text \<open>
  \<open>load_data\<close> returns \<open>None\<close> on every failure; the failures differ by the message
  shown before the return: \<open>DataNotFound\<close> for the message that the data file was not found,
  \<open>SchemaError\<close> with the missing columns for the message that columns are missing,
  \<open>LoadFailure\<close> for the message of the handler of every other exception.
\<close>

datatype load_error = DataNotFound | SchemaError "string list" | LoadFailure

definition possible_paths :: "string list" where
  "possible_paths =
     [''data/serieschrono-datagouv.csv'',
      ''serieschrono-datagouv.csv'',
      ''../data/serieschrono-datagouv.csv'']"

definition required_columns :: "string list" where
  "required_columns = [''Unite_temps'', ''Zone_geographique'', ''Valeurs'', ''Indicateur'']"

text \<open>
  The loop over the candidate paths: a missing file moves on to the next path, any
  other outcome leaves the loop. \<open>FileNotFoundError\<close> as result stands for
  \<open>df is None\<close> after the loop.
\<close>

fun try_paths :: "(string \<Rightarrow> read_csv_result) \<Rightarrow> string list \<Rightarrow> read_csv_result" where
  "try_paths read_csv [] = FileNotFoundError"
| "try_paths read_csv (path # rest) =
     (case read_csv path of
        FileNotFoundError \<Rightarrow> try_paths read_csv rest
      | OtherException \<Rightarrow> OtherException
      | Parsed df \<Rightarrow> Parsed df)"

definition is_digit :: "char \<Rightarrow> bool" where
  "is_digit c = (CHR ''0'' \<le> c \<and> c \<le> CHR ''9'')"

text \<open>
  \<open>str.extract(r'^(\d{2,3})')\<close>: the first two or three digits at the start of the
  zone label, three when there are three; missing when the label starts with fewer
  than two digits. (Among the code points of Latin-1 the decimal digits are 0 to 9.)
\<close>

definition extract_code :: "string \<Rightarrow> string option" where
  "extract_code z =
     (let ds = takeWhile is_digit z
      in if 2 \<le> length ds then Some (take 3 ds) else None)"

text \<open>
  \<open>str.match(r'^[0-9]{2}$')\<close>, a match of the regular expression at the start of the
  string: two digits, then the end of the string. In Python's \<open>re\<close> module \<open>$\<close> matches
  at the end of the string and also just before a newline that ends the string.
\<close>

definition match_two_digits :: "string \<Rightarrow> bool" where
  "match_two_digits s =
     (length (take 2 s) = 2 \<and> list_all is_digit (take 2 s) \<and>
      (drop 2 s = [] \<or> drop 2 s = [CHR 0x0A]))"

text \<open>
  \<open>str.zfill(width)\<close>: zeros on the left up to the width, after a leading sign when
  there is one; a string that is long enough is returned as it is.
\<close>

definition zfill :: "nat \<Rightarrow> string \<Rightarrow> string" where
  "zfill width s =
     (if width \<le> length s then s
      else (case s of
              [] \<Rightarrow> replicate width (CHR ''0'')
            | c # cs \<Rightarrow>
                if c = CHR ''+'' \<or> c = CHR ''-''
                then c # replicate (width - length s) (CHR ''0'') @ cs
                else replicate (width - length s) (CHR ''0'') @ s))"

text \<open>\<open>series.between(left, right)\<close>, both ends included.\<close>

definition between :: "string \<Rightarrow> string \<Rightarrow> string \<Rightarrow> bool" where
  "between left right s = (left \<le> s \<and> s \<le> right)"

text \<open>
  \<open>pd.to_numeric(..., errors='coerce')\<close> on one cell: a number stays, a text is parsed
  by the library (\<open>parse_number\<close>, a parameter) and becomes missing when it is no
  number. (After a coercion that makes a cell missing the library holds the column
  as floats; the values kept are the same numbers, and nothing proved of the loader
  depends on their arithmetic.)
\<close>

definition to_numeric :: "(string \<Rightarrow> int64 option) \<Rightarrow> int64 cell \<Rightarrow> int64 option" where
  "to_numeric parse_number c =
     (case c of NA \<Rightarrow> None | Txt s \<Rightarrow> parse_number s | Num x \<Rightarrow> Some x)"

text \<open>
  \<open>astype(int)\<close> on one cell, the target being \<open>int64\<close>: a number is truncated
  towards zero, and an integer beyond the range of \<open>int64\<close> (a column of unsigned
  integers) wraps around; a text is parsed as by \<open>int(...)\<close> (\<open>parse_int\<close>, a
  parameter); a text that is no integer, or a missing cell, raises.
\<close>

definition astype_int :: "(string \<Rightarrow> int option) \<Rightarrow> real cell \<Rightarrow> int option" where
  "astype_int parse_int c =
     (case c of
        NA \<Rightarrow> None
      | Txt s \<Rightarrow> parse_int s
      | Num x \<Rightarrow> Some (sint (word_of_int (if 0 \<le> x then \<lfloor>x\<rfloor> else \<lceil>x\<rceil>) :: int64)))"

text \<open>
  The frame between the two \<open>dropna()\<close> calls and after them is kept row by row:
  \<open>clean_row\<close> is what one input row becomes, \<open>None\<close> when a filter drops it. The
  year is still a cell, it is cast last.
\<close>

definition clean_row ::
  "(string \<Rightarrow> int64 option) \<Rightarrow> bool \<Rightarrow> raw_row \<Rightarrow>
   (real cell \<times> string \<times> int64 \<times> string \<times> string) option" where
  "clean_row parse_number has_code r =
     (let code = (if has_code then raw_Code_dep r
                  else (case raw_Zone_geographique r of
                          None \<Rightarrow> None | Some z \<Rightarrow> extract_code z))
      in case (raw_Unite_temps r, raw_Zone_geographique r, raw_Valeurs r,
               raw_Indicateur r, code) of
           (NA, _, _, _, _) \<Rightarrow> None
         | (_, None, _, _, _) \<Rightarrow> None
         | (_, _, NA, _, _) \<Rightarrow> None
         | (_, _, _, None, _) \<Rightarrow> None
         | (_, _, _, _, None) \<Rightarrow> None
         | (y, Some z, v, Some i, Some c) \<Rightarrow>
             (case to_numeric parse_number v of
                None \<Rightarrow> None
              | Some x \<Rightarrow>
                  if match_two_digits c \<and> between ''01'' ''95'' (zfill 2 c)
                  then Some (y, z, x, i, zfill 2 c)
                  else None))"

text \<open>
  \<open>df['Unite_temps'].astype(int)\<close> on the rows that are left: one cell that cannot be
  cast raises, and the whole load fails.
\<close>

fun cast_years ::
  "(string \<Rightarrow> int option) \<Rightarrow> (real cell \<times> string \<times> int64 \<times> string \<times> string) list \<Rightarrow>
   row list option" where
  "cast_years parse_int [] = Some []"
| "cast_years parse_int ((y, z, x, i, c) # rest) =
     (case astype_int parse_int y of
        None \<Rightarrow> None
      | Some n \<Rightarrow>
          (case cast_years parse_int rest of
             None \<Rightarrow> None
           | Some rs \<Rightarrow>
               Some (\<lparr>Unite_temps = n, Zone_geographique = z, Valeurs = x,
                      Indicateur = i, Code_dep = c\<rparr> # rs)))"

text \<open>
  The string accessor \<open>.str\<close> of a column raises when the column is not a text
  column. A label column of the file that has rows and no text cell at all (every
  cell is missing) is read as a column of floats.
\<close>

definition str_accessor_raises :: "string option list \<Rightarrow> bool" where
  "str_accessor_raises cells = (cells \<noteq> [] \<and> list_all (\<lambda>c. c = None) cells)"

text \<open>
  \<open>load_data\<close> of \<open>app.py\<close>. The string accessor is used on \<open>Zone_geographique\<close> when
  the file has no \<open>Code_dep\<close> column (the extraction), and on the \<open>Code_dep\<close> column
  of the file otherwise (the match); an exception it raises ends in the handler of
  every other exception, as a failed cast of the year does.
\<close>

definition load_data ::
  "(string \<Rightarrow> read_csv_result) \<Rightarrow> (string \<Rightarrow> int64 option) \<Rightarrow> (string \<Rightarrow> int option) \<Rightarrow>
   load_error + row list" where
  "load_data read_csv parse_number parse_int =
     (case try_paths read_csv possible_paths of
        FileNotFoundError \<Rightarrow> Inl DataNotFound
      | OtherException \<Rightarrow> Inl LoadFailure
      | Parsed df \<Rightarrow>
          (let missing_cols = filter (\<lambda>col. col \<notin> set (columns df)) required_columns
           in if missing_cols \<noteq> [] then Inl (SchemaError missing_cols)
              else if str_accessor_raises
                        (map (if ''Code_dep'' \<in> set (columns df)
                              then raw_Code_dep else raw_Zone_geographique) (rows df))
              then Inl LoadFailure
              else (case cast_years parse_int
                           (List.map_filter
                              (clean_row parse_number (''Code_dep'' \<in> set (columns df)))
                              (rows df)) of
                      None \<Rightarrow> Inl LoadFailure
                    | Some rs \<Rightarrow> Inr rs)))"

section \<open>One pass of the dashboard\<close>



section \<open>Sums without wrap-around\<close>

text \<open>
  The sum of the values of a list of rows as integers, as a reader of the
  specification adds them; the sums of the code are sums of \<open>int64\<close>. The two agree
  when the integer sum is in the range of \<open>int64\<close>.
\<close>

definition exact_sum :: "row list \<Rightarrow> int" where
  "exact_sum rs = (\<Sum>r\<leftarrow>rs. sint (Valeurs r))"

section \<open>The statistics of a series in closed form\<close>

text \<open>
  What both scripts compute for a series \<open>d\<close> that is not empty, written without the
  lookups: the first and the last row in year order, and for the maximum and the
  minimum the first row of \<open>d\<close> that carries the value. The lemmas below show that
  the two bodies return exactly this record.
\<close>

definition summary :: "(real \<Rightarrow> real) \<Rightarrow> (int64 list \<Rightarrow> real) \<Rightarrow> national_row indexed \<Rightarrow> stats" where
  "summary rnd series_mean d =
     (let max_row = hd (filter (\<lambda>x. value_of x = Max (set (map value_of d))) d);
          min_row = hd (filter (\<lambda>x. value_of x = Min (set (map value_of d))) d)
      in \<lparr> first_value = value_of (hd d),
           last_value = value_of (last d),
           first_year = year_of (hd d),
           last_year = year_of (last d),
           evolution_abs = sint (raw_value_of (last d) - raw_value_of (hd d)),
           evolution_pct = evolution_percent rnd (raw_value_of (hd d)) (raw_value_of (last d)),
           total_cases = sint (sum_list (map raw_value_of d)),
           mean_annual = series_mean (map raw_value_of d),
           max_value = Max (set (map value_of d)),
           min_value = Min (set (map value_of d)),
           max_year = year_of max_row,
           min_year = year_of min_row \<rparr>)"

section \<open>The tie order the specification states\<close>

text \<open>
  The specification asks that zones with equal sums appear in the ranking in the order
  in which the zones are first encountered in the input. \<open>first_encounter\<close> is the
  position of the first input row of a zone, \<open>ties_in_encounter_order\<close> the property
  of a ranking.
\<close>

definition first_encounter :: "row list \<Rightarrow> string \<Rightarrow> nat" where
  "first_encounter df z = length (takeWhile (\<lambda>r. Zone_geographique r \<noteq> z) df)"

definition ties_in_encounter_order :: "row list \<Rightarrow> dept_row list \<Rightarrow> bool" where
  "ties_in_encounter_order df ranking =
     sorted_wrt (\<lambda>a b. snd a = snd b \<longrightarrow> first_encounter df (fst a) < first_encounter df (fst b)) ranking"

section \<open>Example inputs\<close>

text \<open>The three rows of the example of the specification.\<close>

definition example_rows :: "row list" where
  "example_rows =
     [\<lparr>Unite_temps = 2016, Zone_geographique = ''01'', Valeurs = 10, Indicateur = ''Vol'', Code_dep = ''01''\<rparr>,
      \<lparr>Unite_temps = 2017, Zone_geographique = ''01'', Valeurs = 15, Indicateur = ''Vol'', Code_dep = ''01''\<rparr>,
      \<lparr>Unite_temps = 2016, Zone_geographique = ''02'', Valeurs = 5, Indicateur = ''Vol'', Code_dep = ''02''\<rparr>]"

text \<open>
  Rows whose values leave the range of \<open>int64\<close> when they are added: three rows of
  one indicator in two zones, and three rows of one year in two indicators.
\<close>

definition overflow_rows :: "row list" where
  "overflow_rows =
     [\<lparr>Unite_temps = 2016, Zone_geographique = ''a'', Valeurs = 9223372036854775807, Indicateur = ''Vol'', Code_dep = ''01''\<rparr>,
      \<lparr>Unite_temps = 2016, Zone_geographique = ''a'', Valeurs = 1, Indicateur = ''Vol'', Code_dep = ''01''\<rparr>,
      \<lparr>Unite_temps = 2016, Zone_geographique = ''b'', Valeurs = 5, Indicateur = ''Vol'', Code_dep = ''02''\<rparr>]"

definition overflow_year_rows :: "row list" where
  "overflow_year_rows =
     [\<lparr>Unite_temps = 2016, Zone_geographique = ''a'', Valeurs = 9223372036854775807, Indicateur = ''Vol'', Code_dep = ''01''\<rparr>,
      \<lparr>Unite_temps = 2016, Zone_geographique = ''b'', Valeurs = 1, Indicateur = ''Vol'', Code_dep = ''02''\<rparr>,
      \<lparr>Unite_temps = 2016, Zone_geographique = ''a'', Valeurs = 5, Indicateur = ''Viol'', Code_dep = ''01''\<rparr>]"

text \<open>Two zones with equal sums; the zone that comes first in the input is the greater label.\<close>

definition tie_rows :: "row list" where
  "tie_rows =
     [\<lparr>Unite_temps = 2016, Zone_geographique = ''Aisne'', Valeurs = 5, Indicateur = ''Vol'', Code_dep = ''02''\<rparr>,
      \<lparr>Unite_temps = 2016, Zone_geographique = ''Ain'', Valeurs = 5, Indicateur = ''Vol'', Code_dep = ''01''\<rparr>]"

text \<open>
  A national table with a tied maximum (2016 and 2017) and a tied minimum (2018 and
  2019) for one indicator, and a second indicator observed in one year only.
\<close>

definition tied_series :: "national_row list" where
  "tied_series =
     [((2016, ''Viol''), 4), ((2016, ''Vol''), 15), ((2017, ''Vol''), 15),
      ((2018, ''Vol''), 3), ((2019, ''Vol''), 3)]"

text \<open>A series whose first value is zero.\<close>

definition zero_series :: "national_row list" where
  "zero_series = [((2016, ''Vol''), 0), ((2017, ''Vol''), 7), ((2018, ''Vol''), 9)]"

text \<open>A series whose difference between last and first value leaves the range of \<open>int64\<close>.\<close>

definition wrapping_series :: "national_row list" where
  "wrapping_series = [((2016, ''Vol''), 9223372036854775807), ((2017, ''Vol''), - 2)]"

text \<open>
  A file system that holds one file, at the first candidate path, and two parsed
  files: one with a department code that ends in a newline (a quoted field of the
  file) next to the code 2A, which keeps the column a text column, and one whose
  header lacks \<open>Valeurs\<close>.
\<close>

definition one_file :: "csv_frame \<Rightarrow> string \<Rightarrow> read_csv_result" where
  "one_file df path = (if path = ''data/serieschrono-datagouv.csv'' then Parsed df else FileNotFoundError)"

definition newline_code_frame :: csv_frame where
  "newline_code_frame =
     \<lparr>columns = [''Unite_temps'', ''Zone_geographique'', ''Valeurs'', ''Indicateur'', ''Code_dep''],
      rows = [\<lparr>raw_Unite_temps = Num 2016, raw_Zone_geographique = Some ''Aube'',
               raw_Valeurs = Num 10, raw_Indicateur = Some ''Vol'',
               raw_Code_dep = Some (''10'' @ [CHR 0x0A])\<rparr>,
              \<lparr>raw_Unite_temps = Num 2016, raw_Zone_geographique = Some ''Corse-du-Sud'',
               raw_Valeurs = Num 7, raw_Indicateur = Some ''Vol'',
               raw_Code_dep = Some ''2A''\<rparr>]\<rparr>"


text \<open>A parsed file whose \<open>Code_dep\<close> column has a row and no text cell.\<close>

definition missing_codes_frame :: csv_frame where
  "missing_codes_frame =
     \<lparr>columns = [''Unite_temps'', ''Zone_geographique'', ''Valeurs'', ''Indicateur'', ''Code_dep''],
      rows = [\<lparr>raw_Unite_temps = Num 2016, raw_Zone_geographique = Some ''Aube'',
               raw_Valeurs = Num 10, raw_Indicateur = Some ''Vol'',
               raw_Code_dep = None\<rparr>]\<rparr>"

section \<open>Facts about grouping and sorting\<close>

lemma groupby_sum_keys: "map fst (groupby_sum key val rs) = sort (remdups (map key rs))"
  by (simp add: groupby_sum_def comp_def)

lemma groupby_sum_distinct: "distinct (map fst (groupby_sum key val rs))"
  by (simp add: groupby_sum_keys)

lemma groupby_sum_sorted: "sorted (map fst (groupby_sum key val rs))"
  by (simp add: groupby_sum_keys)

lemma groupby_sum_key_set: "set (map fst (groupby_sum key val rs)) = key ` set rs"
  by (simp add: groupby_sum_keys)

lemma groupby_sum_value:
  "(k, v) \<in> set (groupby_sum key val rs) \<Longrightarrow>
     v = sum_list (map val (filter (\<lambda>r. key r = k) rs))"
  by (auto simp: groupby_sum_def)

lemma groupby_sum_Nil: "groupby_sum key val [] = []"
  by (simp add: groupby_sum_def)

lemma sum_groups:
  "distinct ks \<Longrightarrow> key ` set rs \<subseteq> set ks \<Longrightarrow>
     (\<Sum>k\<leftarrow>ks. sum_list (map val (filter (\<lambda>r. key r = k) rs)))
       = sum_list (map (val :: 'r \<Rightarrow> 'v::comm_monoid_add) rs)"
proof (induction rs)
  case Nil
  then show ?case by simp
next
  case (Cons r rs)
  have "(\<Sum>k\<leftarrow>ks. sum_list (map val (filter (\<lambda>r. key r = k) (r # rs))))
      = (\<Sum>k\<leftarrow>ks. (if k = key r then val r else 0) + sum_list (map val (filter (\<lambda>r. key r = k) rs)))"
    by (rule arg_cong [where f = sum_list], rule map_cong) auto
  also have "\<dots> = (\<Sum>k\<leftarrow>ks. if k = key r then val r else 0)
                 + (\<Sum>k\<leftarrow>ks. sum_list (map val (filter (\<lambda>r. key r = k) rs)))"
    by (simp add: sum_list_addf)
  also have "(\<Sum>k\<leftarrow>ks. if k = key r then val r else 0) = val r"
    using Cons.prems by (simp add: sum_list_distinct_conv_sum_set)
  finally show ?case using Cons by simp
qed

lemma groupby_sum_filter_total:
  "sum_list (map snd (filter (\<lambda>g. P (fst g)) (groupby_sum key val rs)))
     = sum_list (map val (filter (\<lambda>r. P (key r)) rs))"
proof -
  let ?ks = "filter P (sort (remdups (map key rs)))"
  let ?rs = "filter (\<lambda>r. P (key r)) rs"
  have "filter (\<lambda>g. P (fst g)) (groupby_sum key val rs)
      = map (\<lambda>k. (k, sum_list (map val (filter (\<lambda>r. key r = k) rs)))) ?ks"
    by (simp add: groupby_sum_def filter_map comp_def)
  then have "sum_list (map snd (filter (\<lambda>g. P (fst g)) (groupby_sum key val rs)))
      = (\<Sum>k\<leftarrow>?ks. sum_list (map val (filter (\<lambda>r. key r = k) rs)))"
    by (simp add: comp_def)
  also have "\<dots> = (\<Sum>k\<leftarrow>?ks. sum_list (map val (filter (\<lambda>r. key r = k) ?rs)))"
    by (rule arg_cong [where f = sum_list], rule map_cong)
       (auto intro!: arg_cong [where f = sum_list] arg_cong [where f = "map val"] filter_cong)
  also have "\<dots> = sum_list (map val ?rs)"
    by (rule sum_groups) auto
  finally show ?thesis .
qed

lemma groupby_sum_total:
  "sum_list (map snd (groupby_sum key val rs)) = sum_list (map val rs)"
  using groupby_sum_filter_total [of "\<lambda>_. True" key val rs] by simp

lemma sum_list_insort_key:
  "sum_list (map f (insort_key k x xs)) = (f x :: 'v::comm_monoid_add) + sum_list (map f xs)"
  by (induction xs) (auto simp: ac_simps)

lemma sum_list_sort_key:
  "sum_list (map f (sort_key k xs)) = (sum_list (map f xs) :: 'v::comm_monoid_add)"
  by (induction xs) (auto simp: sum_list_insort_key)

lemma sum_list_sort_values:
  "sum_list (map f (sort_values k asc xs)) = (sum_list (map f xs) :: 'v::comm_monoid_add)"
  by (simp add: sort_values_def sum_list_sort_key rev_map [symmetric] sum_list_rev del: rev_map)

lemma set_sort_values: "set (sort_values k asc xs) = set xs"
  by (simp add: sort_values_def)

lemma distinct_map_sort_key: "distinct (map f (sort_key k xs)) = distinct (map f xs)"
  by (metis distinct_map distinct_sort set_sort)

lemma distinct_map_sort_values: "distinct (map f (sort_values k asc xs)) = distinct (map f xs)"
  by (simp add: sort_values_def distinct_map_sort_key rev_map [symmetric] del: rev_map)

lemma length_sort_values: "length (sort_values k asc xs) = length xs"
  by (simp add: sort_values_def)

lemma sort_values_descending: "sorted (rev (map k (sort_values k False xs)))"
  by (simp add: sort_values_def rev_map [symmetric] del: rev_map)

lemma sort_values_ascending: "sorted (map k (sort_values k True xs))"
  by (simp add: sort_values_def)

section \<open>Facts about sums of int64\<close>

lemma word_of_int_sum_list_sint: "word_of_int (\<Sum>w\<leftarrow>ws. sint w) = (sum_list ws :: int64)"
  by (induction ws) simp_all

lemma sint_word_of_int_in_range: "in_int64 k \<Longrightarrow> sint (word_of_int k :: int64) = k"
  by (simp add: in_int64_def sint_sbintrunc' signed_take_bit_int_eq_self)

lemma sint_sum_list:
  "in_int64 (\<Sum>w\<leftarrow>ws. sint w) \<Longrightarrow> sint (sum_list ws :: int64) = (\<Sum>w\<leftarrow>ws. sint w)"
  using sint_word_of_int_in_range [of "\<Sum>w\<leftarrow>ws. sint w"]
  by (simp add: word_of_int_sum_list_sint)

lemma sint_sum_values:
  "in_int64 (exact_sum rs) \<Longrightarrow> sint (sum_list (map Valeurs rs)) = exact_sum rs"
  using sint_sum_list [of "map Valeurs rs"] by (simp add: exact_sum_def comp_def)

lemma sint_diff:
  "in_int64 (sint a - sint b) \<Longrightarrow> sint (a - b :: int64) = sint a - sint b"
proof -
  assume r: "in_int64 (sint a - sint b)"
  have "word_of_int (sint a - sint b) = (a - b :: int64)" by simp
  with sint_word_of_int_in_range [OF r] show ?thesis by simp
qed

lemma groupby_exact:
  assumes "\<And>k. k \<in> set ks \<Longrightarrow> in_int64 (exact_sum (filter (\<lambda>r. key r = k) rs))"
  shows "(\<Sum>k\<leftarrow>ks. sint (sum_list (map Valeurs (filter (\<lambda>r. key r = k) rs))))
           = (\<Sum>k\<leftarrow>ks. exact_sum (filter (\<lambda>r. key r = k) rs))"
  by (rule arg_cong [where f = sum_list], rule map_cong) (auto simp: sint_sum_values assms)

lemma exact_sum_groups:
  "distinct ks \<Longrightarrow> key ` set rs \<subseteq> set ks \<Longrightarrow>
     (\<Sum>k\<leftarrow>ks. exact_sum (filter (\<lambda>r. key r = k) rs)) = exact_sum rs"
  unfolding exact_sum_def by (rule sum_groups)

lemma groupby_sum_filter_exact:
  assumes "\<And>k. k \<in> key ` set rs \<Longrightarrow> P k \<Longrightarrow> in_int64 (exact_sum (filter (\<lambda>r. key r = k) rs))"
  shows "(\<Sum>g\<leftarrow>filter (\<lambda>g. P (fst g)) (groupby_sum key Valeurs rs). sint (snd g))
           = exact_sum (filter (\<lambda>r. P (key r)) rs)"
proof -
  let ?ks = "filter P (sort (remdups (map key rs)))"
  let ?rs = "filter (\<lambda>r. P (key r)) rs"
  have "filter (\<lambda>g. P (fst g)) (groupby_sum key Valeurs rs)
      = map (\<lambda>k. (k, sum_list (map Valeurs (filter (\<lambda>r. key r = k) rs)))) ?ks"
    by (simp add: groupby_sum_def filter_map comp_def)
  then have "(\<Sum>g\<leftarrow>filter (\<lambda>g. P (fst g)) (groupby_sum key Valeurs rs). sint (snd g))
      = (\<Sum>k\<leftarrow>?ks. sint (sum_list (map Valeurs (filter (\<lambda>r. key r = k) rs))))"
    by (simp add: comp_def)
  also have "\<dots> = (\<Sum>k\<leftarrow>?ks. exact_sum (filter (\<lambda>r. key r = k) rs))"
    by (rule groupby_exact) (auto intro: assms)
  also have "\<dots> = (\<Sum>k\<leftarrow>?ks. exact_sum (filter (\<lambda>r. key r = k) ?rs))"
    by (rule arg_cong [where f = sum_list], rule map_cong)
       (auto intro!: arg_cong [where f = exact_sum] filter_cong)
  also have "\<dots> = exact_sum ?rs"
    by (rule exact_sum_groups) auto
  finally show ?thesis .
qed

section \<open>Facts about the statistics\<close>

lemma bind_err_Inr_iff:
  "bind_err m f = Inr y \<longleftrightarrow> (\<exists>x. m = Inr x \<and> f x = Inr y)"
  by (cases m) (auto simp: bind_err_def)

lemma iloc_first: "xs \<noteq> [] \<Longrightarrow> iloc xs 0 = Inr (hd xs)"
  by (cases xs) (auto simp: iloc_def)

lemma iloc_last: "xs \<noteq> [] \<Longrightarrow> iloc xs (- 1) = Inr (last xs)"
  by (cases xs rule: rev_cases) (auto simp: iloc_def nat_add_distrib nth_append)

lemma iloc_Nil: "iloc [] i = Inl IndexError"
  by (simp add: iloc_def)

lemma loc_member: "x \<in> set d \<Longrightarrow> distinct (map fst d) \<Longrightarrow> loc d (fst x) = Inr x"
proof (induction d)
  case Nil
  then show ?case by simp
next
  case (Cons a d)
  then show ?case by (auto simp: loc_def image_iff)
qed

lemma hd_filter_Cons_False: "\<not> P x \<Longrightarrow> hd (filter P (x # xs)) = hd (filter P xs)"
  by simp

lemma idx_scan_max:
  "idx_scan (\<lambda>a b. b < a) best xs
     = fst (hd (filter (\<lambda>x. value_of x = Max (set (map value_of (best # xs)))) (best # xs)))"
proof (induction xs arbitrary: best)
  case Nil
  then show ?case by simp
next
  case (Cons x xs)
  let ?b = "if value_of best < value_of x then x else best"
  have M: "Max (set (map value_of (best # x # xs))) = Max (set (map value_of (?b # xs)))"
  proof (cases "xs = []")
    case True
    then show ?thesis by (auto simp: max_def)
  next
    case False
    then show ?thesis by (auto simp: max_def)
  qed
  have ge: "value_of best \<le> Max (set (map value_of (best # x # xs)))"
           "value_of x \<le> Max (set (map value_of (best # x # xs)))"
    by (rule Max_ge; simp)+
  have "idx_scan (\<lambda>a b. b < a) best (x # xs) = idx_scan (\<lambda>a b. b < a) ?b xs"
    by simp
  also have "\<dots> = fst (hd (filter (\<lambda>y. value_of y = Max (set (map value_of (?b # xs)))) (?b # xs)))"
    by (rule Cons.IH)
  also have "\<dots> = fst (hd (filter (\<lambda>y. value_of y = Max (set (map value_of (best # x # xs)))) (best # x # xs)))"
    unfolding M [symmetric] using ge by (auto simp del: set_map list.map)
  finally show ?case .
qed

lemma idx_scan_min:
  "idx_scan (\<lambda>a b. a < b) best xs
     = fst (hd (filter (\<lambda>x. value_of x = Min (set (map value_of (best # xs)))) (best # xs)))"
proof (induction xs arbitrary: best)
  case Nil
  then show ?case by simp
next
  case (Cons x xs)
  let ?b = "if value_of x < value_of best then x else best"
  have M: "Min (set (map value_of (best # x # xs))) = Min (set (map value_of (?b # xs)))"
  proof (cases "xs = []")
    case True
    then show ?thesis by (auto simp: min_def)
  next
    case False
    then show ?thesis by (auto simp: min_def)
  qed
  have le: "Min (set (map value_of (best # x # xs))) \<le> value_of best"
           "Min (set (map value_of (best # x # xs))) \<le> value_of x"
    by (rule Min_le; simp)+
  have "idx_scan (\<lambda>a b. a < b) best (x # xs) = idx_scan (\<lambda>a b. a < b) ?b xs"
    by simp
  also have "\<dots> = fst (hd (filter (\<lambda>y. value_of y = Min (set (map value_of (?b # xs)))) (?b # xs)))"
    by (rule Cons.IH)
  also have "\<dots> = fst (hd (filter (\<lambda>y. value_of y = Min (set (map value_of (best # x # xs)))) (best # x # xs)))"
    unfolding M [symmetric] using le by (auto simp del: set_map list.map)
  finally show ?case .
qed

lemma in_set_mapD: "v \<in> set (map f d) \<Longrightarrow> \<exists>x\<in>set d. f x = v"
  by auto

lemma max_attained:
  "d \<noteq> [] \<Longrightarrow> filter (\<lambda>x. value_of x = Max (set (map value_of d))) d \<noteq> []"
proof -
  assume "d \<noteq> []"
  then have "Max (set (map value_of d)) \<in> set (map value_of d)"
    by (intro Max_in) auto
  then obtain x where "x \<in> set d" "value_of x = Max (set (map value_of d))"
    by (blast dest: in_set_mapD)
  then show ?thesis unfolding filter_empty_conv by blast
qed

lemma min_attained:
  "d \<noteq> [] \<Longrightarrow> filter (\<lambda>x. value_of x = Min (set (map value_of d))) d \<noteq> []"
proof -
  assume "d \<noteq> []"
  then have "Min (set (map value_of d)) \<in> set (map value_of d)"
    by (intro Min_in) auto
  then obtain x where "x \<in> set d" "value_of x = Min (set (map value_of d))"
    by (blast dest: in_set_mapD)
  then show ?thesis unfolding filter_empty_conv by blast
qed

lemma hd_filter_member: "filter P d \<noteq> [] \<Longrightarrow> hd (filter P d) \<in> set d"
  by (metis filter_is_subset hd_in_set subsetD)

lemma loc_idxmax:
  assumes "d \<noteq> []" "distinct (map fst d)"
  shows "bind_err (idxmax d) (loc d)
           = Inr (hd (filter (\<lambda>x. value_of x = Max (set (map value_of d))) d))"
proof -
  obtain x xs where d: "d = x # xs" using assms(1) by (cases d) auto
  let ?r = "hd (filter (\<lambda>x. value_of x = Max (set (map value_of d))) d)"
  have "idxmax d = Inr (fst ?r)"
    unfolding d idxmax_def by (simp only: list.case idx_scan_max)
  moreover have "?r \<in> set d"
    by (rule hd_filter_member, rule max_attained, rule assms(1))
  ultimately show ?thesis
    using assms(2) by (simp add: bind_err_def loc_member)
qed

lemma loc_idxmin:
  assumes "d \<noteq> []" "distinct (map fst d)"
  shows "bind_err (idxmin d) (loc d)
           = Inr (hd (filter (\<lambda>x. value_of x = Min (set (map value_of d))) d))"
proof -
  obtain x xs where d: "d = x # xs" using assms(1) by (cases d) auto
  let ?r = "hd (filter (\<lambda>x. value_of x = Min (set (map value_of d))) d)"
  have "idxmin d = Inr (fst ?r)"
    unfolding d idxmin_def by (simp only: list.case idx_scan_min)
  moreover have "?r \<in> set d"
    by (rule hd_filter_member, rule min_attained, rule assms(1))
  ultimately show ?thesis
    using assms(2) by (simp add: bind_err_def loc_member)
qed

lemma bind_err_assoc_loc:
  "bind_err m (\<lambda>l. bind_err (loc d l) f) = bind_err (bind_err m (loc d)) f"
  by (cases m) (auto simp: bind_err_def)

lemma indicator_statistics_summary:
  assumes "d \<noteq> []" "distinct (map fst d)"
  shows "indicator_statistics rnd series_mean d = Inr (summary rnd series_mean d)"
  unfolding indicator_statistics_def bind_err_assoc_loc
    loc_idxmax [OF assms] loc_idxmin [OF assms] iloc_first [OF assms(1)] iloc_last [OF assms(1)]
  by (simp add: bind_err_def summary_def Let_def)

lemma indicator_statistics_notebook_summary:
  assumes "d \<noteq> []"
  shows "indicator_statistics_notebook rnd series_mean d = Inr (summary rnd series_mean d)"
  unfolding indicator_statistics_notebook_def Let_def
    iloc_first [OF assms] iloc_last [OF assms]
    iloc_first [OF max_attained [OF assms]] iloc_first [OF min_attained [OF assms]]
  by (simp add: bind_err_def summary_def Let_def)

lemma indicator_data_distinct: "distinct (map fst (indicator_data national_data i))"
  unfolding indicator_data_def
  by (simp add: distinct_map_sort_values distinct_map_filter)

lemma map_snd_filter: "map snd (filter (\<lambda>x. P (snd x)) xs) = filter P (map snd xs)"
  by (induction xs) auto

lemma indicator_data_rows:
  "map snd (filter (\<lambda>x. indicator_of x = i) (enumerate 0 national_data))
     = filter (\<lambda>r. snd (fst r) = i) national_data"
  using map_snd_filter [of "\<lambda>r. snd (fst r) = i" "enumerate 0 national_data"] by simp

lemma indicator_data_length:
  "length (indicator_data national_data i) = length (filter (\<lambda>r. snd (fst r) = i) national_data)"
  unfolding indicator_data_def length_sort_values
  by (metis indicator_data_rows length_map)

lemma indicator_data_sorted: "sorted (map year_of (indicator_data national_data i))"
  unfolding indicator_data_def by (rule sort_values_ascending)

lemma indicator_data_set:
  "snd ` set (indicator_data national_data i) = {r \<in> set national_data. snd (fst r) = i}"
  unfolding indicator_data_def set_sort_values
  by (metis indicator_data_rows set_map set_filter)

lemma stats_body_agree:
  "1 < length (indicator_data national_data i) \<Longrightarrow>
   indicator_statistics_notebook rnd series_mean (indicator_data national_data i)
     = indicator_statistics rnd series_mean (indicator_data national_data i)"
  using indicator_statistics_summary [OF _ indicator_data_distinct, of national_data i rnd series_mean]
        indicator_statistics_notebook_summary [of "indicator_data national_data i" rnd series_mean]
  by (cases "indicator_data national_data i") auto

lemma stats_loop_summary:
  assumes "\<And>i. 1 < length (indicator_data national_data i) \<Longrightarrow>
             body (indicator_data national_data i)
               = Inr (summary rnd series_mean (indicator_data national_data i))"
  shows "stats_loop body national_data sel acc
           = Inr (\<lambda>i. if i \<in> set sel \<and> 1 < length (indicator_data national_data i)
                      then Some (summary rnd series_mean (indicator_data national_data i)) else acc i)"
proof (induction sel arbitrary: acc)
  case Nil
  then show ?case by simp
next
  case (Cons a sel)
  show ?case
  proof (cases "1 < length (indicator_data national_data a)")
    case True
    then show ?thesis
      by (auto simp: Let_def assms bind_err_def Cons.IH intro!: ext)
  next
    case False
    then show ?thesis
      by (auto simp: Let_def Cons.IH intro!: ext)
  qed
qed

lemma calculate_statistics_summary:
  "calculate_statistics rnd series_mean national_data sel
     = Inr (\<lambda>i. if i \<in> set sel \<and> 1 < length (indicator_data national_data i)
                then Some (summary rnd series_mean (indicator_data national_data i)) else None)"
  unfolding calculate_statistics_def
  by (rule stats_loop_summary) (auto intro!: indicator_statistics_summary indicator_data_distinct)

lemma calculate_statistics_notebook_summary:
  "calculate_statistics_notebook rnd series_mean national_data sel
     = Inr (\<lambda>i. if i \<in> set sel \<and> 1 < length (indicator_data national_data i)
                then Some (summary rnd series_mean (indicator_data national_data i)) else None)"
  unfolding calculate_statistics_notebook_def
  by (rule stats_loop_summary) (auto intro!: indicator_statistics_notebook_summary)

lemma series_length_years:
  assumes "distinct (map fst national_data)"
  shows "length (filter (\<lambda>r. snd (fst r) = i) national_data)
           = card {y. \<exists>v. ((y, i), v) \<in> set national_data}"
proof -
  let ?rs = "filter (\<lambda>r. snd (fst r) = i) national_data"
  have d: "distinct (map fst ?rs)"
    using assms by (rule distinct_map_filter)
  have "inj_on fst (fst ` set ?rs)"
    by (auto simp: inj_on_def)
  then have "distinct (map fst (map fst ?rs))"
    using d by (simp only: distinct_map set_map)
  then have "card (set (map fst (map fst ?rs))) = length ?rs"
    by (simp only: distinct_card length_map)
  moreover have "set (map fst (map fst ?rs)) = {y. \<exists>v. ((y, i), v) \<in> set national_data}"
    by (auto simp: image_iff)
  ultimately show ?thesis by simp
qed

lemma calculators_coincide:
  "calculate_statistics_notebook rnd series_mean national_data selected_indicators
     = calculate_statistics rnd series_mean national_data selected_indicators"
  by (simp only: calculate_statistics_summary calculate_statistics_notebook_summary)

lemma zero_series_data:
  "indicator_data zero_series ''Vol''
     = [(0, (2016, ''Vol''), 0), (1, (2017, ''Vol''), 7), (2, (2018, ''Vol''), 9)]"
  by (simp add: indicator_data_def sort_values_def zero_series_def)

lemma tied_series_data:
  "indicator_data tied_series ''Vol''
     = [(1, (2016, ''Vol''), 15), (2, (2017, ''Vol''), 15),
        (3, (2018, ''Vol''), 3), (4, (2019, ''Vol''), 3)]"
  by (simp add: indicator_data_def sort_values_def tied_series_def)

lemma series_statistics:
  "1 < length (indicator_data nd i) \<Longrightarrow>
   \<exists>m. calculate_statistics rnd mn nd [i] = Inr m \<and>
       m i = Some (summary rnd mn (indicator_data nd i))"
  by (simp add: calculate_statistics_summary)

section \<open>Facts about the loader\<close>




text \<open>
  A \<open>Code_dep\<close> column without any text cell is no text column: the string accessor
  raises and the load ends in the generic failure.
\<close>

lemma load_data_without_text_codes:
  "load_data (one_file missing_codes_frame) parse_number parse_int = Inl LoadFailure"
  by (simp add: load_data_def one_file_def missing_codes_frame_def possible_paths_def
      required_columns_def str_accessor_raises_def)

lemma cast_years_codes:
  "cast_years parse_int xs = Some rs \<Longrightarrow> map Code_dep rs = map (\<lambda>(y, z, x, i, c). c) xs"
proof (induction xs arbitrary: rs)
  case Nil
  then show ?case by simp
next
  case (Cons a xs)
  then show ?case
    by (cases a) (auto split: option.splits)
qed

lemma clean_row_code:
  "clean_row parse_number has_code r = Some (y, z, x, i, c) \<Longrightarrow>
     match_two_digits c \<and> between ''01'' ''95'' c"
  by (auto simp: clean_row_def Let_def match_two_digits_def zfill_def
      split: cell.splits option.splits if_splits)

text \<open>
  Every department code of the loaded frame passes the regular expression and lies
  between "01" and "95" in string order.
\<close>

lemma loaded_codes:
  assumes "load_data read_csv parse_number parse_int = Inr rs" and "r \<in> set rs"
  shows "match_two_digits (Code_dep r) \<and> between ''01'' ''95'' (Code_dep r)"
proof -
  from assms(1) obtain has_code raw_rows where
    c: "cast_years parse_int (List.map_filter (clean_row parse_number has_code) raw_rows) = Some rs"
    by (cases "try_paths read_csv possible_paths")
       (auto simp: load_data_def Let_def split: if_splits option.splits)
  let ?xs = "List.map_filter (clean_row parse_number has_code) raw_rows"
  from assms(2) have "Code_dep r \<in> set (map Code_dep rs)" by simp
  then have "Code_dep r \<in> set (map (\<lambda>(y, z, x, i, c). c) ?xs)"
    by (simp only: cast_years_codes [OF c])
  then obtain y z x i where "(y, z, x, i, Code_dep r) \<in> set ?xs"
    by auto
  then obtain raw where "clean_row parse_number has_code raw = Some (y, z, x, i, Code_dep r)"
    by (auto simp: List.map_filter_def)
  then show ?thesis by (rule clean_row_code)
qed

section \<open>Properties of the national aggregation\<close>

text \<open>
  C1, as the specification states it, fails: the three rows of \<open>overflow_rows\<close> add
  up to 9223372036854775813, and the national row holds - 9223372036854775803, the
  sum wrapped around in \<open>int64\<close>.
\<close>

theorem national_aggregation_counterexample:
  "get_national_statistics overflow_rows [''Vol''] [2016]
     = [((2016, ''Vol''), - 9223372036854775803)] \<and>
   sint (- 9223372036854775803 :: int64) = - 9223372036854775803 \<and>
   exact_sum overflow_rows = 9223372036854775813"
  by (simp add: get_national_statistics_def groupby_sum_def overflow_rows_def exact_sum_def)

text \<open>
  C1, amended. For every record set with an integer value column and every selection
  of indicators and years, \<open>get_national_statistics\<close> returns exactly one row per
  (year, indicator) pair that occurs among the rows matching both selections; its
  value is the \<open>int64\<close> sum of the values of those rows, which is their sum as
  integers whenever that sum is in the range of \<open>int64\<close>. A pair without matching
  rows has no row, and a selection that matches nothing gives the empty table (the
  function has no failure).
\<close>

theorem national_aggregation_rows:
  fixes df :: "row list"
  defines "key \<equiv> (\<lambda>r. (Unite_temps r, Indicateur r))"
  shows "let matching = filter (\<lambda>r. Indicateur r \<in> set selected_indicators \<and>
                                    Unite_temps r \<in> set selected_years) df;
             out = get_national_statistics df selected_indicators selected_years
         in distinct (map fst out) \<and>
            set (map fst out) = key ` set matching \<and>
            (\<forall>(k, v) \<in> set out.
               v = sum_list (map Valeurs (filter (\<lambda>r. key r = k) matching)) \<and>
               (in_int64 (exact_sum (filter (\<lambda>r. key r = k) matching)) \<longrightarrow>
                  sint v = exact_sum (filter (\<lambda>r. key r = k) matching))) \<and>
            (matching = [] \<longrightarrow> out = [])"
  unfolding Let_def get_national_statistics_def key_def
  by (auto simp: groupby_sum_distinct groupby_sum_key_set groupby_sum_Nil sint_sum_values
      dest: groupby_sum_value simp del: set_map)

theorem national_aggregation_rows_witness:
  "get_national_statistics example_rows [''Vol''] [2016] = [((2016, ''Vol''), 15)] \<and>
   exact_sum (filter (\<lambda>r. (Unite_temps r, Indicateur r) = (2016, ''Vol''))
      (filter (\<lambda>r. Indicateur r \<in> set [''Vol''] \<and> Unite_temps r \<in> set [2016]) example_rows)) = 15 \<and>
   in_int64 15 \<and> sint (15 :: int64) = 15 \<and>
   get_national_statistics example_rows [''Viol''] [2016] = []"
  using national_aggregation_rows
          [where selected_indicators = "[''Vol'']" and selected_years = "[2016]"
             and df = example_rows]
        national_aggregation_rows
          [where selected_indicators = "[''Viol'']" and selected_years = "[2016]"
             and df = example_rows]
  by (simp add: get_national_statistics_def groupby_sum_def example_rows_def exact_sum_def
      in_int64_def)

text \<open>
  C7, as the specification states it, fails: in \<open>overflow_year_rows\<close> the aggregate of
  one indicator wraps around, so the aggregates of the year add up to
  - 9223372036854775803 while the values of the rows of the year add up to
  9223372036854775813.
\<close>

theorem national_aggregation_year_totals_counterexample:
  "get_national_statistics overflow_year_rows [''Vol'', ''Viol''] [2016]
     = [((2016, ''Viol''), 5), ((2016, ''Vol''), - 9223372036854775808)] \<and>
   (\<Sum>g\<leftarrow>filter (\<lambda>g. fst (fst g) = 2016)
         (get_national_statistics overflow_year_rows [''Vol'', ''Viol''] [2016]). sint (snd g))
     = - 9223372036854775803 \<and>
   exact_sum (filter (\<lambda>r. Unite_temps r = 2016) overflow_year_rows) = 9223372036854775813"
  by (simp add: get_national_statistics_def groupby_sum_def overflow_year_rows_def exact_sum_def)

text \<open>
  C7, amended. For every record set with an integer value column and each year, the
  \<open>int64\<close> sum of the national rows of that year equals the \<open>int64\<close> sum of the
  values of all filtered rows of that year (both wrap around alike); and when the
  sum of every (year, indicator) group of that year is in the range of \<open>int64\<close>, the
  aggregates of the year add up, as integers, to the sum of the values of the
  filtered rows of that year.
\<close>

theorem national_aggregation_year_totals:
  fixes df :: "row list"
  defines "key \<equiv> (\<lambda>r. (Unite_temps r, Indicateur r))"
  shows "let filtered = filter (\<lambda>r. Indicateur r \<in> set selected_indicators \<and>
                                   Unite_temps r \<in> set selected_years) df;
             of_year = filter (\<lambda>g. fst (fst g) = y)
                         (get_national_statistics df selected_indicators selected_years)
         in sum_list (map snd of_year)
              = sum_list (map Valeurs (filter (\<lambda>r. Unite_temps r = y) filtered)) \<and>
            ((\<forall>k \<in> set (map fst of_year).
                 in_int64 (exact_sum (filter (\<lambda>r. key r = k) filtered))) \<longrightarrow>
             (\<Sum>g\<leftarrow>of_year. sint (snd g))
               = exact_sum (filter (\<lambda>r. Unite_temps r = y) filtered))"
proof -
  let ?f = "filter (\<lambda>r. Indicateur r \<in> set selected_indicators \<and>
                        Unite_temps r \<in> set selected_years) df"
  let ?out = "groupby_sum key Valeurs ?f"
  let ?oy = "filter (\<lambda>g. fst (fst g) = y) ?out"
  have a: "sum_list (map snd ?oy) = sum_list (map Valeurs (filter (\<lambda>r. Unite_temps r = y) ?f))"
    by (subst groupby_sum_filter_total [where P = "\<lambda>k. fst k = y"]) (simp add: key_def)
  have b: "(\<Sum>g\<leftarrow>?oy. sint (snd g)) = exact_sum (filter (\<lambda>r. Unite_temps r = y) ?f)"
    if h: "\<forall>k \<in> set (map fst ?oy). in_int64 (exact_sum (filter (\<lambda>r. key r = k) ?f))"
  proof -
    have "set (map fst ?oy) = {k \<in> set (map fst ?out). fst k = y}"
      by force
    then have keys: "set (map fst ?oy) = {k \<in> key ` set ?f. fst k = y}"
      by (simp only: groupby_sum_key_set)
    have "(\<Sum>g\<leftarrow>?oy. sint (snd g)) = exact_sum (filter (\<lambda>r. fst (key r) = y) ?f)"
      by (rule groupby_sum_filter_exact [where P = "\<lambda>k. fst k = y"]) (use h keys in blast)
    then show ?thesis by (simp add: key_def)
  qed
  show ?thesis
    unfolding Let_def get_national_statistics_def key_def [symmetric]
    using a b by blast
qed

theorem national_aggregation_year_totals_witness:
  "(\<Sum>g\<leftarrow>filter (\<lambda>g. fst (fst g) = 2016)
         (get_national_statistics example_rows [''Vol''] [2016, 2017]). sint (snd g)) = 15 \<and>
   exact_sum (filter (\<lambda>r. Unite_temps r = 2016)
      (filter (\<lambda>r. Indicateur r \<in> set [''Vol''] \<and> Unite_temps r \<in> set [2016, 2017]) example_rows)) = 15 \<and>
   in_int64 15"
  using national_aggregation_year_totals
          [where y = 2016 and selected_indicators = "[''Vol'']"
             and selected_years = "[2016, 2017]" and df = example_rows]
  by (simp add: get_national_statistics_def groupby_sum_def example_rows_def exact_sum_def
      in_int64_def)

text \<open>
  C8. The example of the specification: on its three rows the national aggregation
  for "Vol" and the years 2016 and 2017 gives 15 for each year, and the departmental
  ranking for "Vol" in 2016 is zone "01" with 10, then zone "02" with 5.
\<close>

theorem spec_example:
  "get_national_statistics example_rows [''Vol''] [2016, 2017]
     = [((2016, ''Vol''), 15), ((2017, ''Vol''), 15)] \<and>
   create_departmental_analysis example_rows ''Vol'' 2016 = Some [(''01'', 10), (''02'', 5)]"
  by (simp add: get_national_statistics_def create_departmental_analysis_def sort_values_def
      groupby_sum_def example_rows_def)

section \<open>Properties of the departmental ranking\<close>

text \<open>
  C2, as the specification states it, fails: in \<open>tie_rows\<close> the zone "Aisne" comes
  first in the input and has the same sum as "Ain", and the ranking lists "Ain"
  first. The grouping step orders the zones by label before the sort, so the rows in
  the reverse order give the same ranking: whatever order the sort leaves equal sums
  in, it is not the order of first encounter for one of the two inputs.
\<close>

theorem departmental_ranking_counterexample:
  "create_departmental_analysis tie_rows ''Vol'' 2016 = Some [(''Ain'', 5), (''Aisne'', 5)] \<and>
   first_encounter tie_rows ''Aisne'' < first_encounter tie_rows ''Ain'' \<and>
   \<not> ties_in_encounter_order tie_rows [(''Ain'', 5), (''Aisne'', 5)] \<and>
   create_departmental_analysis (rev tie_rows) ''Vol'' 2016 = Some [(''Ain'', 5), (''Aisne'', 5)]"
  by (simp add: create_departmental_analysis_def sort_values_def groupby_sum_def tie_rows_def
      first_encounter_def ties_in_encounter_order_def)

text \<open>
  C2, amended. For a record set with an integer value column, a ranking returned by
  \<open>create_departmental_analysis\<close> is in descending order of the per-zone \<open>int64\<close>
  sums, read as signed integers, and holds each zone of the matching rows exactly
  once, with the \<open>int64\<close> sum of the values of its matching rows, which is their sum
  as integers whenever that sum is in the range of \<open>int64\<close>. The order among zones
  with equal sums is not the order of first encounter in the input.
\<close>

theorem departmental_ranking_descending:
  assumes "create_departmental_analysis df selected_indicator selected_year = Some ranking"
  shows "let dept_data = filter (\<lambda>r. Indicateur r = selected_indicator \<and>
                                      Unite_temps r = selected_year) df
         in sorted (rev (map (\<lambda>g. sint (snd g)) ranking)) \<and>
            distinct (map fst ranking) \<and>
            set (map fst ranking) = Zone_geographique ` set dept_data \<and>
            (\<forall>(z, v) \<in> set ranking.
               v = sum_list (map Valeurs (filter (\<lambda>r. Zone_geographique r = z) dept_data)) \<and>
               (in_int64 (exact_sum (filter (\<lambda>r. Zone_geographique r = z) dept_data)) \<longrightarrow>
                  sint v = exact_sum (filter (\<lambda>r. Zone_geographique r = z) dept_data)))"
proof -
  let ?d = "filter (\<lambda>r. Indicateur r = selected_indicator \<and> Unite_temps r = selected_year) df"
  have r: "ranking = sort_values (\<lambda>g. sint (snd g)) False (groupby_sum Zone_geographique Valeurs ?d)"
    using assms by (simp add: create_departmental_analysis_def Let_def split: if_splits)
  have "sorted (rev (map (\<lambda>g. sint (snd g)) ranking))"
    unfolding r by (rule sort_values_descending)
  moreover have "distinct (map fst ranking)"
    unfolding r by (simp add: distinct_map_sort_values groupby_sum_distinct)
  moreover have "set (map fst ranking) = Zone_geographique ` set ?d"
    unfolding r by (simp only: set_map set_sort_values) (simp only: set_map [symmetric] groupby_sum_key_set)
  moreover have "\<forall>(z, v) \<in> set ranking.
       v = sum_list (map Valeurs (filter (\<lambda>r. Zone_geographique r = z) ?d)) \<and>
       (in_int64 (exact_sum (filter (\<lambda>r. Zone_geographique r = z) ?d)) \<longrightarrow>
          sint v = exact_sum (filter (\<lambda>r. Zone_geographique r = z) ?d))"
    unfolding r set_sort_values by (auto dest: groupby_sum_value simp: sint_sum_values)
  ultimately show ?thesis by (simp only: Let_def)
qed

theorem departmental_ranking_descending_witness:
  "create_departmental_analysis example_rows ''Vol'' 2016 = Some [(''01'', 10), (''02'', 5)] \<and>
   sorted (rev (map (\<lambda>g. sint (snd g)) [(''01'', 10 :: int64), (''02'', 5)])) \<and>
   exact_sum (filter (\<lambda>r. Zone_geographique r = ''01'')
      (filter (\<lambda>r. Indicateur r = ''Vol'' \<and> Unite_temps r = 2016) example_rows)) = 10 \<and>
   in_int64 10 \<and> sint (10 :: int64) = 10"
proof -
  have h: "create_departmental_analysis example_rows ''Vol'' 2016 = Some [(''01'', 10), (''02'', 5)]"
    by (simp add: create_departmental_analysis_def sort_values_def groupby_sum_def example_rows_def)
  from departmental_ranking_descending [OF h] h show ?thesis
    by (simp add: example_rows_def exact_sum_def in_int64_def)
qed

text \<open>
  C10, as the specification states it, fails: for \<open>overflow_rows\<close> the sum of one zone
  wraps around, the values of the ranking add up to - 9223372036854775803 and the
  values of the matching rows to 9223372036854775813.
\<close>

theorem departmental_total_counterexample:
  "create_departmental_analysis overflow_rows ''Vol'' 2016
     = Some [(''b'', 5), (''a'', - 9223372036854775808)] \<and>
   (\<Sum>g\<leftarrow>[(''b'', 5 :: int64), (''a'', - 9223372036854775808)]. sint (snd g))
     = - 9223372036854775803 \<and>
   exact_sum (filter (\<lambda>r. Indicateur r = ''Vol'' \<and> Unite_temps r = 2016) overflow_rows)
     = 9223372036854775813"
  by (simp add: create_departmental_analysis_def sort_values_def groupby_sum_def
      overflow_rows_def exact_sum_def)

text \<open>
  C10, amended. For a record set with an integer value column, when at least one row
  matches the indicator and the year a ranking is returned, and the \<open>int64\<close> sum of
  its values equals the \<open>int64\<close> sum of the values of the matching rows (both wrap
  around alike); when the sum of every zone is in the range of \<open>int64\<close>, the values of
  the ranking add up, as integers, to the sum of the values of the matching rows.
\<close>

theorem departmental_total_preserved:
  assumes "filter (\<lambda>r. Indicateur r = selected_indicator \<and> Unite_temps r = selected_year) df \<noteq> []"
  shows "let dept_data = filter (\<lambda>r. Indicateur r = selected_indicator \<and>
                                      Unite_temps r = selected_year) df
         in \<exists>ranking.
              create_departmental_analysis df selected_indicator selected_year = Some ranking \<and>
              sum_list (map snd ranking) = sum_list (map Valeurs dept_data) \<and>
              ((\<forall>z \<in> Zone_geographique ` set dept_data.
                   in_int64 (exact_sum (filter (\<lambda>r. Zone_geographique r = z) dept_data))) \<longrightarrow>
               (\<Sum>g\<leftarrow>ranking. sint (snd g)) = exact_sum dept_data)"
proof -
  let ?d = "filter (\<lambda>r. Indicateur r = selected_indicator \<and> Unite_temps r = selected_year) df"
  let ?g = "groupby_sum Zone_geographique Valeurs ?d"
  let ?r = "sort_values (\<lambda>g. sint (snd g)) False ?g"
  have r: "create_departmental_analysis df selected_indicator selected_year = Some ?r"
    using assms by (simp add: create_departmental_analysis_def Let_def)
  have s: "sum_list (map snd ?r) = sum_list (map Valeurs ?d)"
    by (simp add: sum_list_sort_values groupby_sum_total)
  have e: "(\<Sum>g\<leftarrow>?r. sint (snd g)) = exact_sum ?d"
    if h: "\<forall>z \<in> Zone_geographique ` set ?d.
             in_int64 (exact_sum (filter (\<lambda>r. Zone_geographique r = z) ?d))"
  proof -
    have "(\<Sum>g\<leftarrow>?r. sint (snd g)) = (\<Sum>g\<leftarrow>?g. sint (snd g))"
      by (rule sum_list_sort_values)
    also have "\<dots> = (\<Sum>g\<leftarrow>filter (\<lambda>g. True) ?g. sint (snd g))"
      by simp
    also have "\<dots> = exact_sum (filter (\<lambda>r. True) ?d)"
      by (rule groupby_sum_filter_exact [where P = "\<lambda>k. True"]) (use h in blast)
    finally show ?thesis by simp
  qed
  show ?thesis unfolding Let_def using r s e by blast
qed

theorem departmental_total_preserved_witness:
  "create_departmental_analysis example_rows ''Vol'' 2016 = Some [(''01'', 10), (''02'', 5)] \<and>
   sum_list (map snd [(''01'', 10 :: int64), (''02'', 5)]) = 15 \<and>
   (\<Sum>g\<leftarrow>[(''01'', 10 :: int64), (''02'', 5)]. sint (snd g)) = 15 \<and>
   exact_sum (filter (\<lambda>r. Indicateur r = ''Vol'' \<and> Unite_temps r = 2016) example_rows) = 15"
proof -
  have ne: "filter (\<lambda>r. Indicateur r = ''Vol'' \<and> Unite_temps r = 2016) example_rows \<noteq> []"
    by (simp add: example_rows_def)
  from departmental_total_preserved [OF ne] show ?thesis
    by (simp add: create_departmental_analysis_def sort_values_def groupby_sum_def
        example_rows_def exact_sum_def)
qed

section \<open>Properties of the statistics\<close>

text \<open>
  C4, as the specification states it, fails: in \<open>wrapping_series\<close> the difference
  between the last and the first value wraps around in \<open>int64\<close>, and even with exact
  quotient and product (no rounding) the percentage change is 100 where
  (last - first) / first * 100 is negative.
\<close>

theorem percentage_change_counterexample:
  "\<exists>m s. calculate_statistics (\<lambda>x. x) (\<lambda>vs. 0) wrapping_series [''Vol''] = Inr m \<and>
         m ''Vol'' = Some s \<and>
         first_value s = 9223372036854775807 \<and> last_value s = - 2 \<and>
         evolution_pct s = 100 \<and>
         (real_of_int (last_value s) - real_of_int (first_value s))
            / real_of_int (first_value s) * 100 < 0"
  by (simp add: calculate_statistics_def indicator_data_def sort_values_def
      indicator_statistics_def bind_err_def iloc_def loc_def idxmax_def idxmin_def
      evolution_percent_def wrapping_series_def)

text \<open>
  C4, amended. For every indicator in the statistics map the series is in ascending
  year order and the first and last values are those of its first and last row.
  When the first value is not zero, the percentage change is
  (last - first) / first * 100 as the code evaluates it: the difference in \<open>int64\<close>
  (the difference of the integers whenever that is in the range of \<open>int64\<close>), then
  the quotient and the product by 100 in 64-bit floats, each rounded. When the first
  value is zero it is exactly 0, whatever the last value is.
\<close>

theorem percentage_change:
  assumes "calculate_statistics rnd series_mean national_data selected_indicators = Inr m"
      and "m indicator = Some s"
  shows "let d = indicator_data national_data indicator;
             first_v = raw_value_of (hd d);
             last_v = raw_value_of (last d)
         in 1 < length d \<and> sorted (map year_of d) \<and>
            first_value s = sint first_v \<and> last_value s = sint last_v \<and>
            (first_value s \<noteq> 0 \<longrightarrow>
               evolution_pct s
                 = rnd (rnd (rnd (real_of_int (sint (last_v - first_v)))
                               / rnd (real_of_int (first_value s))) * 100)) \<and>
            (in_int64 (last_value s - first_value s) \<longrightarrow>
               sint (last_v - first_v) = last_value s - first_value s) \<and>
            (first_value s = 0 \<longrightarrow> evolution_pct s = 0)"
proof -
  let ?d = "indicator_data national_data indicator"
  from assms have len: "1 < length ?d" and s: "s = summary rnd series_mean ?d"
    by (auto simp: calculate_statistics_summary split: if_splits)
  have f: "first_value s = sint (raw_value_of (hd ?d))"
    and l: "last_value s = sint (raw_value_of (last ?d))"
    and p: "evolution_pct s = evolution_percent rnd (raw_value_of (hd ?d)) (raw_value_of (last ?d))"
    by (simp_all add: s summary_def Let_def)
  have z: "first_value s = 0 \<longleftrightarrow> raw_value_of (hd ?d) = 0"
    unfolding f by (rule signed_eq_0_iff)
  have "first_value s \<noteq> 0 \<longrightarrow>
          evolution_pct s
            = rnd (rnd (rnd (real_of_int (sint (raw_value_of (last ?d) - raw_value_of (hd ?d))))
                          / rnd (real_of_int (first_value s))) * 100)"
    unfolding z p by (simp add: evolution_percent_def f)
  moreover have "first_value s = 0 \<longrightarrow> evolution_pct s = 0"
    unfolding z p by (simp add: evolution_percent_def)
  moreover have "in_int64 (last_value s - first_value s) \<longrightarrow>
          sint (raw_value_of (last ?d) - raw_value_of (hd ?d)) = last_value s - first_value s"
    unfolding f l by (simp add: sint_diff)
  ultimately show ?thesis
    unfolding Let_def using len f l indicator_data_sorted [of national_data indicator] by blast
qed

theorem percentage_change_witness:
  "(\<exists>m s. calculate_statistics (\<lambda>x. x) (\<lambda>vs. 0) zero_series [''Vol''] = Inr m \<and>
          m ''Vol'' = Some s \<and> first_value s = 0 \<and> last_value s = 9 \<and> evolution_pct s = 0) \<and>
   (\<exists>m s. calculate_statistics (\<lambda>x. x) (\<lambda>vs. 0) tied_series [''Vol''] = Inr m \<and>
          m ''Vol'' = Some s \<and> first_value s = 15 \<and> last_value s = 3 \<and>
          in_int64 (last_value s - first_value s) \<and> evolution_pct s = - 80)"
proof (rule conjI)
  obtain m s where m: "calculate_statistics (\<lambda>x. x) (\<lambda>vs. 0) zero_series [''Vol''] = Inr m"
    and s: "m ''Vol'' = Some s"
    using series_statistics [of zero_series "''Vol''" "\<lambda>x. x" "\<lambda>vs. 0"]
    unfolding zero_series_data by auto
  note p = percentage_change [OF m s, unfolded Let_def zero_series_data]
  have "first_value s = 0 \<and> last_value s = 9 \<and> evolution_pct s = 0"
    using p by simp
  with m s show "\<exists>m s. calculate_statistics (\<lambda>x. x) (\<lambda>vs. 0) zero_series [''Vol''] = Inr m \<and>
          m ''Vol'' = Some s \<and> first_value s = 0 \<and> last_value s = 9 \<and> evolution_pct s = 0"
    by blast
next
  obtain m s where m: "calculate_statistics (\<lambda>x. x) (\<lambda>vs. 0) tied_series [''Vol''] = Inr m"
    and s: "m ''Vol'' = Some s"
    using series_statistics [of tied_series "''Vol''" "\<lambda>x. x" "\<lambda>vs. 0"]
    unfolding tied_series_data by auto
  note p = percentage_change [OF m s, unfolded Let_def tied_series_data]
  have f: "first_value s = 15" and l: "last_value s = 3"
    using p by simp_all
  have r: "in_int64 (last_value s - first_value s)"
    unfolding f l by (simp add: in_int64_def)
  have "evolution_pct s = - 80"
    using p unfolding f l by simp
  with m s f l r show "\<exists>m s. calculate_statistics (\<lambda>x. x) (\<lambda>vs. 0) tied_series [''Vol''] = Inr m \<and>
          m ''Vol'' = Some s \<and> first_value s = 15 \<and> last_value s = 3 \<and>
          in_int64 (last_value s - first_value s) \<and> evolution_pct s = - 80"
    by blast
qed

text \<open>
  C5. On a national table, whose (year, indicator) keys are distinct, both scripts
  return a map without failure, and its keys are exactly the selected indicators
  observed in at least two distinct years; an indicator observed in one year only
  is absent.
\<close>

theorem statistics_need_two_years:
  assumes "distinct (map fst national_data)"
  shows "\<exists>m. calculate_statistics rnd series_mean national_data selected_indicators = Inr m \<and>
             calculate_statistics_notebook rnd series_mean national_data selected_indicators = Inr m \<and>
             dom m = {i \<in> set selected_indicators.
                        2 \<le> card {y. \<exists>v. ((y, i), v) \<in> set national_data}}"
  unfolding calculate_statistics_summary calculate_statistics_notebook_summary
  by (auto simp: dom_def indicator_data_length series_length_years [OF assms] split: if_splits)

theorem statistics_need_two_years_witness:
  "distinct (map fst tied_series) \<and>
   (\<exists>m. calculate_statistics (\<lambda>x. x) (\<lambda>vs. 0) tied_series [''Viol'', ''Vol''] = Inr m \<and>
        ''Viol'' \<notin> dom m \<and> ''Vol'' \<in> dom m)"
proof -
  have h: "distinct (map fst tied_series)"
    by (simp add: tied_series_def)
  have v: "{y. \<exists>v. ((y, ''Viol''), v) \<in> set tied_series} = {2016}"
    by (auto simp: tied_series_def)
  have w: "{2016, 2017} \<subseteq> {y. \<exists>v. ((y, ''Vol''), v) \<in> set tied_series}"
    by (auto simp: tied_series_def)
  have f: "finite {y. \<exists>v. ((y, ''Vol''), v) \<in> set tied_series}"
    by (rule finite_subset [of _ "(fst \<circ> fst) ` set tied_series"]) force+
  have "card {2016, 2017 :: int} \<le> card {y. \<exists>v. ((y, ''Vol''), v) \<in> set tied_series}"
    by (rule card_mono [OF f w])
  then have c: "2 \<le> card {y. \<exists>v. ((y, ''Vol''), v) \<in> set tied_series}"
    by simp
  from statistics_need_two_years [OF h, of "\<lambda>x. x" "\<lambda>vs. 0" "[''Viol'', ''Vol'']"] h v c
  show ?thesis
    by auto
qed

text \<open>
  C9, as the specification states it, fails: no national table makes the two
  scripts return different years for the maximum or the minimum.
\<close>

theorem tie_break_divergence_counterexample:
  "\<not> (\<exists>rnd series_mean national_data selected_indicators m m' indicator s s'.
         calculate_statistics rnd series_mean national_data selected_indicators = Inr m \<and>
         calculate_statistics_notebook rnd series_mean national_data selected_indicators = Inr m' \<and>
         m indicator = Some s \<and> m' indicator = Some s' \<and>
         (max_year s \<noteq> max_year s' \<or> min_year s \<noteq> min_year s'))"
  by (auto simp: calculators_coincide)

text \<open>
  C9, amended. On every national table and every selection the statistics calculator
  of the notebook script returns what the one of \<open>app.py\<close> returns: the lookup at the
  label of \<open>idxmax\<close> or \<open>idxmin\<close> and the first row of the boolean mask select the
  same row, the first one in year order that carries the value.
\<close>

theorem tie_break_agreement:
  "calculate_statistics_notebook rnd series_mean national_data selected_indicators
     = calculate_statistics rnd series_mean national_data selected_indicators"
proof -
  let ?m = "\<lambda>i. if i \<in> set selected_indicators \<and> 1 < length (indicator_data national_data i)
                then Some (summary rnd series_mean (indicator_data national_data i)) else None"
  have "calculate_statistics rnd series_mean national_data selected_indicators = Inr ?m"
    by (rule calculate_statistics_summary)
  moreover have "calculate_statistics_notebook rnd series_mean national_data selected_indicators = Inr ?m"
    by (rule calculate_statistics_notebook_summary)
  ultimately show ?thesis by simp
qed

theorem tie_break_agreement_witness:
  "\<exists>m s. calculate_statistics (\<lambda>x. x) (\<lambda>vs. 0) tied_series [''Vol''] = Inr m \<and>
         calculate_statistics_notebook (\<lambda>x. x) (\<lambda>vs. 0) tied_series [''Vol''] = Inr m \<and>
         m ''Vol'' = Some s \<and> max_value s = 15 \<and> max_year s = 2016 \<and>
         min_value s = 3 \<and> min_year s = 2018"
proof -
  have "\<exists>m s. calculate_statistics (\<lambda>x. x) (\<lambda>vs. 0) tied_series [''Vol''] = Inr m \<and>
         m ''Vol'' = Some s \<and> max_value s = 15 \<and> max_year s = 2016 \<and>
         min_value s = 3 \<and> min_year s = 2018"
    by (simp add: calculate_statistics_def indicator_data_def sort_values_def
        indicator_statistics_def bind_err_def iloc_def loc_def idxmax_def idxmin_def
        evolution_percent_def tied_series_def)
  with tie_break_agreement [of "\<lambda>x. x" "\<lambda>vs. 0" tied_series "[''Vol'']"] show ?thesis
    by auto
qed

section \<open>Properties of the loader\<close>

text \<open>
  C3 at a concrete file: a row whose department code is "10" followed by a newline
  passes the regular expression and the range test, and is loaded with its code of
  three characters; the row with the code 2A next to it is dropped.
\<close>

theorem newline_code_is_loaded:
  "load_data (one_file newline_code_frame) (\<lambda>s. None) (\<lambda>s. None)
     = Inr [\<lparr>Unite_temps = 2016, Zone_geographique = ''Aube'', Valeurs = 10,
             Indicateur = ''Vol'', Code_dep = ''10'' @ [CHR 0x0A]\<rparr>] \<and>
   length (''10'' @ [CHR 0x0A]) = 3"
  by (simp add: load_data_def one_file_def newline_code_frame_def possible_paths_def
      required_columns_def List.map_filter_simps clean_row_def to_numeric_def
      match_two_digits_def is_digit_def between_def zfill_def astype_int_def
      str_accessor_raises_def)




end
